theory Spec2Isabelle
  imports
    Main
    "HOL-Library.Char_ord"
    "HOL-Library.List_Lexorder"
    "HOL-Library.Product_Lexorder"
    "HOL-Library.Option_ord"
    "HOL-Library.Multiset"
begin

section \<open>The forecast script: data\<close>

text \<open>
  \<^verbatim>\<open>forecast.py\<close> is one function, \<^verbatim>\<open>main\<close>, that calls pandas and Prophet.
  The two libraries are not part of the repository, so \<^verbatim>\<open>main\<close> is modelled over a
  record of the library operations it calls; what the script itself decides (the order
  of the steps, which failures it catches, what it writes and how it exits) is spelled
  out in the definitions below.

  A cell of a loaded table is a missing value, a piece of text or a number; \<open>'n\<close>
  is the type of the numbers (Python floats, left abstract but ordered).  Boolean
  columns are not modelled.
\<close>

datatype 'n cell = NaN | Str string | Number 'n

text \<open>
  A \<^verbatim>\<open>DataFrame\<close>: the column labels and the rows, each row giving the cell under a
  label.  \<^verbatim>\<open>len(df)\<close> is the number of rows.
\<close>

record 'n dataframe =
  columns :: "string list"
  rows :: "(string \<Rightarrow> 'n cell) list"

text \<open>An exception is kept as its message, \<^verbatim>\<open>str(e)\<close>, which is all the script uses.\<close>

type_synonym exn = string

text \<open>
  The library operations.  Each may raise where the Python may raise (\<open>Inl\<close>).
  \<^item> \<open>read_csv\<close> is \<^verbatim>\<open>pd.read_csv\<close> on the file system of the run.
  \<^item> \<open>to_datetime\<close> is \<^verbatim>\<open>pd.to_datetime\<close> with its default \<^verbatim>\<open>errors='raise'\<close>:
    the conversion of one cell of a column, given the whole column (pandas may infer the
    format from the column).
  \<^item> \<open>tie_order\<close> is the part of \<^verbatim>\<open>df.sort_values\<close> that the script leaves to
    pandas' default \<^verbatim>\<open>kind='quicksort'\<close>, which is not stable: the order in which rows
    with equal dates come out.  The sort sees the column of dates only, so this is a
    function of that column: \<open>tie_order col i\<close> is the place given, among the rows with
    the same date, to the row at position \<open>i\<close> of \<open>col\<close>.
  \<^item> \<open>to_numeric\<close> is \<^verbatim>\<open>pd.to_numeric(..., errors='coerce')\<close> on one cell:
    \<open>None\<close> is the missing number it yields where the cell is not numeric.
  \<^item> \<open>import_prophet\<close> is the exception \<^verbatim>\<open>from prophet import Prophet\<close> raises, if any.
  \<^item> \<open>prophet_yhat\<close> is lines 40 to 44 and the \<^verbatim>\<open>float(yhat)\<close> of line 45:
    configure, fit, predict one day ahead and read \<^verbatim>\<open>yhat\<close> of the last row,
    as a function of the \<^verbatim>\<open>ds\<close>/\<^verbatim>\<open>y\<close> rows it is given.
  \<^item> \<open>dumps_float\<close> is \<^verbatim>\<open>json.dumps\<close> on a float.
\<close>

record ('d, 'n) library =
  read_csv :: "string \<Rightarrow> exn + 'n dataframe"
  to_datetime :: "'n cell list \<Rightarrow> 'n cell \<Rightarrow> exn + 'd"
  tie_order :: "'n cell list \<Rightarrow> nat \<Rightarrow> nat"
  to_numeric :: "'n cell \<Rightarrow> 'n option"
  import_prophet :: "exn option"
  prophet_yhat :: "('d \<times> 'n) list \<Rightarrow> exn + 'n"
  dumps_float :: "'n \<Rightarrow> string"

text \<open>
  How a run ends: \<^verbatim>\<open>sys.exit(n)\<close> or returning from \<^verbatim>\<open>main\<close> (status 0), or an
  exception nobody catches, on which the interpreter prints a traceback and exits
  with status 1.
\<close>

datatype ending = Exit nat | Uncaught exn

text \<open>
  The calls to the outside that a run makes: reading the file, importing Prophet, and
  running Prophet on a fitting set.
\<close>

datatype ('d, 'n) call = Read_csv string | Import_prophet | Prophet_fit "('d \<times> 'n) list"

text \<open>
  What a run leaves behind: the text the script itself wrote to the two streams (a
  traceback is the interpreter's, not the script's), how the run ended, and the calls
  it made, in order.
\<close>

record ('d, 'n) outcome =
  stdout :: string
  stderr :: string
  ending :: ending
  calls :: "('d, 'n) call list"

section \<open>Row preparation (lines 27 to 31)\<close>

text \<open>\<^verbatim>\<open>df[['date', 'rating']].copy()\<close>: each row as its date cell and its rating cell.\<close>

definition select_columns :: "'n dataframe \<Rightarrow> ('n cell \<times> 'n cell) list" where
  "select_columns df = map (\<lambda>r. (r ''date'', r ''rating'')) (rows df)"

text \<open>
  \<^verbatim>\<open>df.sort_values('date')\<close>.  Text is compared as Python compares \<^verbatim>\<open>str\<close> (by
  character code, a prefix first), numbers by value.  Comparing text with a number
  raises \<^verbatim>\<open>TypeError\<close>, so a column holding both cannot be sorted.  Rows with a missing
  date are set aside and appended in file order (\<^verbatim>\<open>na_position='last'\<close>).  Among rows
  with equal dates the order is the library's, \<open>tie_order\<close>; rows it gives the same
  place stay in file order.
\<close>

fun sort_rank :: "'n cell \<Rightarrow> bool \<times> string \<times> 'n option" where
  "sort_rank NaN = (True, [], None)"
| "sort_rank (Str s) = (False, s, None)"
| "sort_rank (Number n) = (False, [], Some n)"

fun is_text :: "'n cell \<Rightarrow> bool" where
  "is_text (Str s) = True"
| "is_text c = False"

fun is_number :: "'n cell \<Rightarrow> bool" where
  "is_number (Number n) = True"
| "is_number c = False"

text \<open>The sort key of the row at position \<open>i\<close>: its date, then its place among equal dates.\<close>

definition row_key ::
  "('d, 'n) library \<Rightarrow> 'n cell list \<Rightarrow> nat \<times> 'n cell \<times> 'n cell
     \<Rightarrow> (bool \<times> string \<times> 'n option) \<times> nat" where
  "row_key lib col ir =
     (sort_rank (fst (snd ir)), if fst (snd ir) = NaN then 0 else tie_order lib col (fst ir))"

definition sort_values ::
  "('d, 'n::linorder) library \<Rightarrow> ('n cell \<times> 'n cell) list
     \<Rightarrow> exn + ('n cell \<times> 'n cell) list" where
  "sort_values lib rs =
     (if list_ex is_text (map fst rs) \<and> list_ex is_number (map fst rs)
      then Inl ''TypeError''
      else Inr (map snd (sort_key (row_key lib (map fst rs)) (enumerate 0 rs))))"

text \<open>Running the conversions of a column in order; the first exception ends it.\<close>

fun collect :: "(exn + 'a) list \<Rightarrow> exn + 'a list" where
  "collect [] = Inr []"
| "collect (Inl e # rs) = Inl e"
| "collect (Inr v # rs) = (case collect rs of Inl e \<Rightarrow> Inl e | Inr vs \<Rightarrow> Inr (v # vs))"

definition to_datetime_column :: "('d, 'n) library \<Rightarrow> 'n cell list \<Rightarrow> exn + 'd list" where
  "to_datetime_column lib cs = collect (map (to_datetime lib cs) cs)"

text \<open>
  \<^verbatim>\<open>df.dropna(subset=['y'])\<close>: a row is (date, rating, ds, y); the rows whose
  \<^verbatim>\<open>y\<close> is missing go, the others stay in order.
\<close>

fun dropna :: "('n cell \<times> 'n cell \<times> 'd \<times> 'n option) list \<Rightarrow> ('n cell \<times> 'n cell \<times> 'd \<times> 'n) list" where
  "dropna [] = []"
| "dropna ((d, r, s, None) # rest) = dropna rest"
| "dropna ((d, r, s, Some v) # rest) = (d, r, s, v) # dropna rest"

text \<open>
  Lines 27 to 31.  None of them is inside a \<^verbatim>\<open>try\<close>, so an exception of
  \<^verbatim>\<open>sort_values\<close> or \<^verbatim>\<open>to_datetime\<close> leaves \<^verbatim>\<open>main\<close>.
\<close>

definition prepare ::
  "('d, 'n::linorder) library \<Rightarrow> 'n dataframe \<Rightarrow> exn + ('n cell \<times> 'n cell \<times> 'd \<times> 'n) list" where
  "prepare lib df =
     (case sort_values lib (select_columns df) of
        Inl e \<Rightarrow> Inl e
      | Inr sorted_rows \<Rightarrow>
          (case to_datetime_column lib (map fst sorted_rows) of
             Inl e \<Rightarrow> Inl e
           | Inr stamps \<Rightarrow>
               Inr (dropna (map (\<lambda>((d, r), s). (d, r, s, to_numeric lib r))
                                (zip sorted_rows stamps)))))"

text \<open>\<^verbatim>\<open>df[['ds', 'y']]\<close>, the rows handed to \<^verbatim>\<open>fit\<close>.\<close>

definition fitting_set :: "('n cell \<times> 'n cell \<times> 'd \<times> 'n) list \<Rightarrow> ('d \<times> 'n) list" where
  "fitting_set fr = map (\<lambda>(d, r, s, v). (s, v)) fr"

text \<open>
  The prepared series: what lines 27 to 31 hand on to \<^verbatim>\<open>fit\<close>, or the exception
  they raise.
\<close>

definition prepared_series ::
  "('d, 'n::linorder) library \<Rightarrow> 'n dataframe \<Rightarrow> exn + ('d \<times> 'n) list" where
  "prepared_series lib df =
     (case prepare lib df of Inl e \<Rightarrow> Inl e | Inr fr \<Rightarrow> Inr (fitting_set fr))"

section \<open>The script\<close>

text \<open>
  \<^verbatim>\<open>main\<close>, from the value of \<^verbatim>\<open>args.csv\<close> on.  \<^verbatim>\<open>print\<close> and
  \<^verbatim>\<open>sys.stderr.write\<close> append to the two streams; \<^verbatim>\<open>print\<close> adds the newline.
\<close>

definition main :: "('d, 'n::linorder) library \<Rightarrow> string \<Rightarrow> ('d, 'n) outcome" where
  "main lib csv =
     (case read_csv lib csv of
        Inl e \<Rightarrow>
          \<lparr>stdout = [], stderr = ''csv-read-failed: '' @ e @ [CHR 0x0A],
           ending = Exit 2, calls = [Read_csv csv]\<rparr>
      | Inr df \<Rightarrow>
          if ''date'' \<notin> set (columns df) \<or> ''rating'' \<notin> set (columns df) then
            \<lparr>stdout = [], stderr = ''csv-missing-columns'' @ [CHR 0x0A],
             ending = Exit 3, calls = [Read_csv csv]\<rparr>
          else if length (rows df) = 0 then
            \<lparr>stdout = ''{\"yhat\": null}'' @ [CHR 0x0A], stderr = [],
             ending = Exit 0, calls = [Read_csv csv]\<rparr>
          else
            (case prepare lib df of
               Inl e \<Rightarrow>
                 \<lparr>stdout = [], stderr = [], ending = Uncaught e, calls = [Read_csv csv]\<rparr>
             | Inr fr \<Rightarrow>
                 (case import_prophet lib of
                    Some e \<Rightarrow>
                      \<lparr>stdout = [], stderr = ''prophet-import-failed: '' @ e @ [CHR 0x0A],
                       ending = Exit 4, calls = [Read_csv csv, Import_prophet]\<rparr>
                  | None \<Rightarrow>
                      (case prophet_yhat lib (fitting_set fr) of
                         Inl e \<Rightarrow>
                           \<lparr>stdout = [], stderr = ''prophet-fit-failed: '' @ e @ [CHR 0x0A],
                            ending = Exit 5,
                            calls = [Read_csv csv, Import_prophet, Prophet_fit (fitting_set fr)]\<rparr>
                       | Inr yhat \<Rightarrow>
                           \<lparr>stdout = ''{\"yhat\": '' @ dumps_float lib yhat @ ''}'' @ [CHR 0x0A],
                            stderr = [], ending = Exit 0,
                            calls = [Read_csv csv, Import_prophet, Prophet_fit (fitting_set fr)]\<rparr>))))"

section \<open>A sample environment\<close>

text \<open>
  One instance of the library record and a few tables, on which the script can be run.
  It follows the libraries on the cells these tables hold and is otherwise kept small:
  \<^item> dates are text in month/day/year form, the form pandas reads month first; other
    text is refused, as \<^verbatim>\<open>pd.to_datetime\<close> refuses text that is no date (the wording
    of the message differs between pandas versions); a missing date converts to the
    missing timestamp \<open>None\<close>; a number counts nanoseconds from 1970-01-01, and only
    those of the first day are covered;
  \<^item> rows with equal dates stay in file order: on arrays as short as the date columns of
    these tables numpy's quicksort is an insertion sort, which leaves equal keys in place;
  \<^item> a rating is a number already, or text holding an unsigned decimal integer; other
    text (the tables use words) is not numeric;
  \<^item> Prophet refuses fewer than two rows and a missing timestamp with the messages
    below; the value it predicts otherwise is not modelled, and the last observation
    stands in for it;
  \<^item> a file that is not listed does not exist.
\<close>

definition digit_of :: "char \<Rightarrow> nat option" where
  "digit_of c = (if CHR ''0'' \<le> c \<and> c \<le> CHR ''9'' then Some (of_char c - 48) else None)"

fun read_digits :: "nat \<Rightarrow> string \<Rightarrow> nat option" where
  "read_digits acc [] = Some acc"
| "read_digits acc (c # cs) =
     (case digit_of c of None \<Rightarrow> None | Some d \<Rightarrow> read_digits (10 * acc + d) cs)"

definition read_nat :: "string \<Rightarrow> nat option" where
  "read_nat s = (if s = [] then None else read_digits 0 s)"

text \<open>\<^verbatim>\<open>s.split('/')\<close>.\<close>

fun fields :: "string \<Rightarrow> string list" where
  "fields [] = [[]]"
| "fields (c # cs) =
     (if c = CHR ''/'' then [] # fields cs
      else (case fields cs of [] \<Rightarrow> [[c]] | f # fs \<Rightarrow> (c # f) # fs))"

definition days_in_month :: "nat \<Rightarrow> nat \<Rightarrow> nat" where
  "days_in_month y m =
     (if m = 2 then (if y mod 4 = 0 \<and> (y mod 100 \<noteq> 0 \<or> y mod 400 = 0) then 29 else 28)
      else if m = 4 \<or> m = 6 \<or> m = 9 \<or> m = 11 then 30 else 31)"

definition read_mdy :: "string \<Rightarrow> (nat \<times> nat \<times> nat) option" where
  "read_mdy s =
     (case map read_nat (fields s) of
        [Some m, Some d, Some y] \<Rightarrow>
          if 1 \<le> m \<and> m \<le> 12 \<and> 1 \<le> d \<and> d \<le> days_in_month y m then Some (y, m, d) else None
      | _ \<Rightarrow> None)"

text \<open>A day as (year, month, day), so that the order of the triples is the calendar's.\<close>

type_synonym day = "(nat \<times> nat \<times> nat) option"

definition sample_to_datetime :: "int cell list \<Rightarrow> int cell \<Rightarrow> exn + day" where
  "sample_to_datetime col c =
     (case c of
        NaN \<Rightarrow> Inr None
      | Str s \<Rightarrow>
          (case read_mdy s of
             Some d \<Rightarrow> Inr (Some d)
           | None \<Rightarrow> Inl (''Unknown datetime string format, unable to parse: '' @ s))
      | Number n \<Rightarrow>
          if 0 \<le> n \<and> n < 86400000000000 then Inr (Some (1970, 1, 1))
          else Inl ''timestamp outside the sample range'')"

definition sample_to_numeric :: "int cell \<Rightarrow> int option" where
  "sample_to_numeric c =
     (case c of NaN \<Rightarrow> None | Str s \<Rightarrow> map_option int (read_nat s) | Number n \<Rightarrow> Some n)"

definition sample_prophet_yhat :: "(day \<times> int) list \<Rightarrow> exn + int" where
  "sample_prophet_yhat series =
     (if length series < 2 then Inl ''Dataframe has less than 2 non-NaN rows.''
      else if list_ex (\<lambda>(t, v). t = None) series then Inl ''Found NaN in column ds.''
      else Inr (snd (last series)))"

text \<open>\<^verbatim>\<open>json.dumps\<close> of a float without a fraction: the digits and \<^verbatim>\<open>.0\<close>.\<close>

fun show_nat :: "nat \<Rightarrow> string" where
  "show_nat n =
     (if n < 10 then [''0123456789'' ! n] else show_nat (n div 10) @ [''0123456789'' ! (n mod 10)])"

declare show_nat.simps [simp del]

definition sample_dumps_float :: "int \<Rightarrow> string" where
  "sample_dumps_float v = (if v < 0 then ''-'' else []) @ show_nat (nat \<bar>v\<bar>) @ ''.0''"

text \<open>A row of a table with the columns \<^verbatim>\<open>date\<close> and \<^verbatim>\<open>rating\<close>.\<close>

definition table_row :: "'n cell \<Rightarrow> 'n cell \<Rightarrow> string \<Rightarrow> 'n cell" where
  "table_row d r = (\<lambda>label. if label = ''date'' then d else if label = ''rating'' then r else NaN)"

definition ratings_csv :: "int dataframe" where
  "ratings_csv = \<lparr>columns = [''date'', ''rating''],
     rows = [table_row (Str ''1/3/2024'') (Number 4), table_row (Str ''1/1/2024'') (Number 5),
             table_row (Str ''1/2/2024'') (Number 3)]\<rparr>"

definition header_only_csv :: "int dataframe" where
  "header_only_csv = \<lparr>columns = [''date'', ''rating''], rows = []\<rparr>"

definition no_rating_csv :: "int dataframe" where
  "no_rating_csv = \<lparr>columns = [''date'', ''score''],
     rows = [\<lambda>label. if label = ''date'' then Str ''1/1/2024''
                     else if label = ''score'' then Number 4 else NaN]\<rparr>"

definition words_csv :: "int dataframe" where
  "words_csv = \<lparr>columns = [''date'', ''rating''],
     rows = [table_row (Str ''1/1/2024'') (Str ''good''), table_row (Str ''1/2/2024'') (Str ''bad'')]\<rparr>"

definition some_words_csv :: "int dataframe" where
  "some_words_csv = \<lparr>columns = [''date'', ''rating''],
     rows = [table_row (Str ''1/1/2024'') (Str ''4''), table_row (Str ''1/2/2024'') (Str ''good''),
             table_row (Str ''1/3/2024'') (Str ''5'')]\<rparr>"

definition us_dates_csv :: "int dataframe" where
  "us_dates_csv = \<lparr>columns = [''date'', ''rating''],
     rows = [table_row (Str ''9/1/2024'') (Number 4), table_row (Str ''10/1/2024'') (Number 3)]\<rparr>"

definition bad_date_csv :: "int dataframe" where
  "bad_date_csv = \<lparr>columns = [''date'', ''rating''],
     rows = [table_row (Str ''1/1/2024'') (Number 4), table_row (Str ''soon'') (Number 3)]\<rparr>"

definition soon_good_csv :: "int dataframe" where
  "soon_good_csv = \<lparr>columns = [''date'', ''rating''],
     rows = [table_row (Str ''soon'') (Str ''good'')]\<rparr>"

definition good_then_soon_csv :: "int dataframe" where
  "good_then_soon_csv = \<lparr>columns = [''date'', ''rating''],
     rows = [table_row (Str ''1/1/2024'') (Str ''good''), table_row (Str ''soon'') (Str ''3'')]\<rparr>"

definition words_same_day_csv :: "int dataframe" where
  "words_same_day_csv = \<lparr>columns = [''date'', ''rating''],
     rows = [table_row (Str ''1/1/2024'') (Str ''good''), table_row (Str ''1/1/2024'') (Str ''bad''),
             table_row (Str ''1/2/2024'') (Str ''3''), table_row (Str ''1/3/2024'') (Str ''4'')]\<rparr>"

definition words_same_day_shuffled_csv :: "int dataframe" where
  "words_same_day_shuffled_csv = \<lparr>columns = [''date'', ''rating''],
     rows = [table_row (Str ''1/3/2024'') (Str ''4''), table_row (Str ''1/1/2024'') (Str ''bad''),
             table_row (Str ''1/2/2024'') (Str ''3''), table_row (Str ''1/1/2024'') (Str ''good'')]\<rparr>"

definition same_day_csv :: "int dataframe" where
  "same_day_csv = \<lparr>columns = [''date'', ''rating''],
     rows = [table_row (Str ''1/1/2024'') (Number 1), table_row (Str ''1/1/2024'') (Number 2)]\<rparr>"

definition same_day_shuffled_csv :: "int dataframe" where
  "same_day_shuffled_csv = \<lparr>columns = [''date'', ''rating''],
     rows = [table_row (Str ''1/1/2024'') (Number 2), table_row (Str ''1/1/2024'') (Number 1)]\<rparr>"

definition sample_files :: "(string \<times> int dataframe) list" where
  "sample_files =
     [(''ratings.csv'', ratings_csv), (''header_only.csv'', header_only_csv),
      (''no_rating.csv'', no_rating_csv), (''words.csv'', words_csv),
      (''some_words.csv'', some_words_csv), (''us_dates.csv'', us_dates_csv),
      (''bad_date.csv'', bad_date_csv), (''soon_good.csv'', soon_good_csv),
      (''good_then_soon.csv'', good_then_soon_csv),
      (''words_same_day.csv'', words_same_day_csv),
      (''words_same_day_shuffled.csv'', words_same_day_shuffled_csv),
      (''same_day.csv'', same_day_csv),
      (''same_day_shuffled.csv'', same_day_shuffled_csv)]"

definition sample_read_csv :: "string \<Rightarrow> exn + int dataframe" where
  "sample_read_csv path =
     (case map_of sample_files path of
        None \<Rightarrow> Inl (''[Errno 2] No such file or directory: '' @ path)
      | Some df \<Rightarrow> Inr df)"

definition sample_library :: "(day, int) library" where
  "sample_library =
     \<lparr>read_csv = sample_read_csv, to_datetime = sample_to_datetime,
      tie_order = (\<lambda>col i. 0), to_numeric = sample_to_numeric, import_prophet = None,
      prophet_yhat = sample_prophet_yhat, dumps_float = sample_dumps_float\<rparr>"

section \<open>Running the sample environment\<close>

lemmas sample_defs =
  sample_library_def sample_read_csv_def sample_files_def sample_to_datetime_def
  sample_to_numeric_def sample_prophet_yhat_def sample_dumps_float_def table_row_def
  read_mdy_def read_nat_def digit_of_def days_in_month_def
  ratings_csv_def header_only_csv_def no_rating_csv_def
  words_csv_def some_words_csv_def us_dates_csv_def soon_good_csv_def good_then_soon_csv_def
  words_same_day_csv_def words_same_day_shuffled_csv_def bad_date_csv_def same_day_csv_def same_day_shuffled_csv_def

lemmas run_defs = main_def prepare_def sort_values_def row_key_def select_columns_def
  to_datetime_column_def fitting_set_def enumerate_eq_zip

section \<open>Facts about the steps\<close>

lemma collect_length: "collect rs = Inr vs \<Longrightarrow> length vs = length rs"
  by (induction rs arbitrary: vs rule: collect.induct) (auto split: sum.splits)

lemma collect_map:
  "collect (map f cs) = Inr ds \<Longrightarrow> ds = map (\<lambda>c. projr (f c)) cs"
proof (induction cs arbitrary: ds)
  case Nil
  then show ?case by simp
next
  case (Cons c cs)
  then show ?case by (cases "f c") (auto split: sum.splits)
qed

lemma dropna_filter:
  "dropna xs = map (\<lambda>(d, r, s, v). (d, r, s, the v)) (filter (\<lambda>(d, r, s, v). v \<noteq> None) xs)"
  by (induction xs rule: dropna.induct) auto

lemma sort_rank_inj: "sort_rank a = sort_rank b \<Longrightarrow> a = b"
  by (cases a; cases b) auto

lemma sorted_map_fst:
  fixes xs :: "('a::linorder \<times> 'b::linorder) list"
  shows "sorted xs \<Longrightarrow> sorted (map fst xs)"
  by (induction xs) (auto simp: less_eq_prod_def)

text \<open>Whatever the order among equal dates, the sort permutes the rows and orders the dates.\<close>

lemma sort_values_mset: "sort_values lib rs = Inr s \<Longrightarrow> mset s = mset rs"
proof -
  assume "sort_values lib rs = Inr s"
  then have s: "s = map snd (sort_key (row_key lib (map fst rs)) (enumerate 0 rs))"
    by (auto simp: sort_values_def split: if_splits)
  have "mset s = image_mset snd (mset (enumerate 0 rs))"
    unfolding s by simp
  also have "\<dots> = mset (map snd (enumerate 0 rs))" by (simp only: mset_map)
  also have "\<dots> = mset rs" by (simp only: map_snd_enumerate)
  finally show ?thesis .
qed

lemma sort_values_sorted:
  assumes "sort_values lib rs = Inr s"
  shows "sorted (map (\<lambda>r. sort_rank (fst r)) s)"
proof -
  let ?k = "row_key lib (map fst rs)"
  from assms have s: "s = map snd (sort_key ?k (enumerate 0 rs))"
    by (auto simp: sort_values_def split: if_splits)
  have "sorted (map fst (map ?k (sort_key ?k (enumerate 0 rs))))"
    by (rule sorted_map_fst) simp
  moreover have "(\<lambda>r. sort_rank (fst r)) \<circ> snd = fst \<circ> ?k"
    by (simp add: row_key_def fun_eq_iff)
  ultimately show ?thesis unfolding s by simp
qed

lemma sort_values_set: "sort_values lib rs = Inr s \<Longrightarrow> set s = set rs"
  by (drule sort_values_mset) (rule mset_eq_setD)

lemma sort_values_raises:
  assumes "mset rs' = mset rs"
  shows "isl (sort_values lib rs') = isl (sort_values lib rs)"
    and "sort_values lib rs = Inl e \<Longrightarrow> sort_values lib rs' = Inl e"
proof -
  have "set rs' = set rs" using assms by (rule mset_eq_setD)
  then have c: "(list_ex is_text (map fst rs') \<and> list_ex is_number (map fst rs'))
      = (list_ex is_text (map fst rs) \<and> list_ex is_number (map fst rs))"
    by (simp add: list_ex_iff)
  show "isl (sort_values lib rs') = isl (sort_values lib rs)"
    using c by (simp add: sort_values_def)
  show "sort_values lib rs = Inl e \<Longrightarrow> sort_values lib rs' = Inl e"
    using c by (auto simp: sort_values_def split: if_splits)
qed

text \<open>Two lists of the same elements, both in the order of a key that tells them apart.\<close>

lemma sorted_key_unique:
  assumes "mset xs = mset ys" and "inj_on f (set xs)"
    and "sorted (map f xs)" and "sorted (map f ys)"
  shows "xs = ys"
proof -
  have "sort_key f xs = ys"
    using assms(1,2,4) by (rule sort_key_inj_key_eq)
  moreover have "sort_key f xs = xs"
    using assms(2,3) by (intro sort_key_inj_key_eq) simp_all
  ultimately show ?thesis by simp
qed

lemma sorted_dates_unique:
  assumes "sort_values lib rs = Inr s" and "sort_values lib rs' = Inr s'"
    and "mset rs' = mset rs"
  shows "map fst s' = map fst s"
proof (rule sorted_key_unique [where f = sort_rank])
  have "mset s' = mset s"
    using assms by (simp add: sort_values_mset)
  then have "image_mset fst (mset s') = image_mset fst (mset s)" by simp
  then show "mset (map fst s') = mset (map fst s)" by simp
  show "inj_on sort_rank (set (map fst s'))"
    by (auto simp: inj_on_def dest: sort_rank_inj)
  show "sorted (map sort_rank (map fst s'))"
    using sort_values_sorted [OF assms(2)] by (simp add: comp_def)
  show "sorted (map sort_rank (map fst s))"
    using sort_values_sorted [OF assms(1)] by (simp add: comp_def)
qed

lemma prepare_rows:
  assumes "prepare lib df = Inr fr"
  shows "\<exists>s ds. sort_values lib (select_columns df) = Inr s
           \<and> to_datetime_column lib (map fst s) = Inr ds \<and> length ds = length s
           \<and> fr = dropna (map (\<lambda>((d, r), t). (d, r, t, to_numeric lib r)) (zip s ds))"
proof -
  from assms obtain s where s: "sort_values lib (select_columns df) = Inr s"
    by (auto simp: prepare_def split: sum.splits)
  with assms obtain ds where ds: "to_datetime_column lib (map fst s) = Inr ds"
    by (auto simp: prepare_def split: sum.splits)
  have "length ds = length s"
    using ds collect_length by (fastforce simp: to_datetime_column_def)
  with s ds assms show ?thesis by (simp add: prepare_def)
qed

lemma dropna_all_missing:
  "\<forall>x \<in> set xs. snd (snd (snd x)) = None \<Longrightarrow> dropna xs = []"
  by (induction xs rule: dropna.induct) auto

lemma prepare_all_invalid:
  assumes "prepare lib df = Inr fr"
    and "\<forall>r \<in> set (rows df). to_numeric lib (r ''rating'') = None"
  shows "fr = []"
proof -
  from prepare_rows [OF assms(1)] obtain s ds where
    s: "sort_values lib (select_columns df) = Inr s" and
    fr: "fr = dropna (map (\<lambda>((d, r), t). (d, r, t, to_numeric lib r)) (zip s ds))"
    by blast
  have "\<forall>x \<in> set s. to_numeric lib (snd x) = None"
    using assms(2) sort_values_set [OF s] by (auto simp: select_columns_def)
  then have "\<forall>x \<in> set (map (\<lambda>((d, r), t). (d, r, t, to_numeric lib r)) (zip s ds)).
               snd (snd (snd x)) = None"
    by (auto dest!: set_zip_leftD)
  then show ?thesis unfolding fr by (rule dropna_all_missing)
qed

text \<open>
  The series in terms of the sorted rows: the rows whose rating is a number, each with
  the conversion of its date and that number.
\<close>

lemma fitting_set_numeric_rows:
  "fitting_set (dropna (map (\<lambda>((d, r), t). (d, r, t, to_numeric lib r))
                            (zip s (map h (map fst s)))))
   = map (\<lambda>(d, v). (h d, v))
       (map (\<lambda>(d, r). (d, the (to_numeric lib r)))
            (filter (\<lambda>(d, r). to_numeric lib r \<noteq> None) s))"
proof (induction s)
  case Nil
  then show ?case by (simp add: fitting_set_def)
next
  case (Cons x s)
  obtain d r where x: "x = (d, r)" by (cases x)
  show ?case
    using Cons by (cases "to_numeric lib r") (simp_all add: x fitting_set_def)
qed

lemma numeric_rows_unique:
  assumes "mset s' = mset s"
    and "sorted (map (\<lambda>r. sort_rank (fst r)) s)" and "sorted (map (\<lambda>r. sort_rank (fst r)) s')"
    and "\<forall>a \<in> set s. \<forall>b \<in> set s. fst a = fst b \<longrightarrow>
           (\<forall>u v. to_numeric lib (snd a) = Some u \<and> to_numeric lib (snd b) = Some v \<longrightarrow> u = v)"
  shows "map (\<lambda>(d, r). (d, the (to_numeric lib r))) (filter (\<lambda>(d, r). to_numeric lib r \<noteq> None) s')
       = map (\<lambda>(d, r). (d, the (to_numeric lib r))) (filter (\<lambda>(d, r). to_numeric lib r \<noteq> None) s)"
    (is "?X s' = ?X s")
proof (rule sorted_key_unique [where f = "\<lambda>x. sort_rank (fst x)"])
  have "filter_mset (\<lambda>(d, r). to_numeric lib r \<noteq> None) (mset s')
      = filter_mset (\<lambda>(d, r). to_numeric lib r \<noteq> None) (mset s)"
    using assms(1) by simp
  then have "image_mset (\<lambda>(d, r). (d, the (to_numeric lib r)))
               (filter_mset (\<lambda>(d, r). to_numeric lib r \<noteq> None) (mset s'))
      = image_mset (\<lambda>(d, r). (d, the (to_numeric lib r)))
               (filter_mset (\<lambda>(d, r). to_numeric lib r \<noteq> None) (mset s))"
    by simp
  then show "mset (?X s') = mset (?X s)" by simp
  have "set s' = set s" using assms(1) by (rule mset_eq_setD)
  then show "inj_on (\<lambda>x. sort_rank (fst x)) (set (?X s'))"
    using assms(4) by (fastforce simp: inj_on_def dest!: sort_rank_inj)
  have key: "map (\<lambda>x. sort_rank (fst x)) (?X xs)
      = filter (\<lambda>k. True) (map (\<lambda>r. sort_rank (fst r)) (filter (\<lambda>(d, r). to_numeric lib r \<noteq> None) xs))" for xs
    by (simp add: case_prod_unfold comp_def)
  show "sorted (map (\<lambda>x. sort_rank (fst x)) (?X s'))"
    unfolding key using assms(3) by (simp add: sorted_filter)
  show "sorted (map (\<lambda>x. sort_rank (fst x)) (?X s))"
    unfolding key using assms(2) by (simp add: sorted_filter)
qed

lemma prepared_series_perm:
  assumes "mset (rows df') = mset (rows df)"
    and "\<forall>a \<in> set (rows df). \<forall>b \<in> set (rows df). a ''date'' = b ''date'' \<longrightarrow>
           (\<forall>u v. to_numeric lib (a ''rating'') = Some u \<and> to_numeric lib (b ''rating'') = Some v
                  \<longrightarrow> u = v)"
  shows "prepared_series lib df' = prepared_series lib df"
proof -
  let ?rs = "select_columns df" and ?rs' = "select_columns df'"
  have "image_mset (\<lambda>r. (r ''date'', r ''rating'')) (mset (rows df'))
          = image_mset (\<lambda>r. (r ''date'', r ''rating'')) (mset (rows df))"
    using assms(1) by (rule arg_cong)
  then have m: "mset ?rs' = mset ?rs"
    by (simp add: select_columns_def)
  show ?thesis
  proof (cases "sort_values lib ?rs")
    case (Inl e)
    then have "sort_values lib ?rs' = Inl e"
      by (rule sort_values_raises(2) [OF m])
    with Inl show ?thesis by (simp add: prepared_series_def prepare_def)
  next
    case (Inr s)
    have "isl (sort_values lib ?rs') = isl (sort_values lib ?rs)"
      using m by (rule sort_values_raises(1))
    with Inr obtain s' where s': "sort_values lib ?rs' = Inr s'"
      by (cases "sort_values lib ?rs'") simp_all
    have col: "map fst s' = map fst s"
      using Inr s' m by (rule sorted_dates_unique)
    show ?thesis
    proof (cases "to_datetime_column lib (map fst s)")
      case (Inl e)
      with Inr s' col show ?thesis by (simp add: prepared_series_def prepare_def)
    next
      case ds: (Inr ds)
      define h where "h = (\<lambda>c. projr (to_datetime lib (map fst s) c))"
      have dsh: "ds = map h (map fst s)"
        using ds unfolding to_datetime_column_def h_def by (rule collect_map)
      have ms: "mset s' = mset s"
        using sort_values_mset [OF Inr] sort_values_mset [OF s'] m by simp
      have ties: "\<forall>a \<in> set s. \<forall>b \<in> set s. fst a = fst b \<longrightarrow>
           (\<forall>u v. to_numeric lib (snd a) = Some u \<and> to_numeric lib (snd b) = Some v \<longrightarrow> u = v)"
        using assms(2) sort_values_set [OF Inr] by (fastforce simp: select_columns_def)
      have same: "map (\<lambda>(d, r). (d, the (to_numeric lib r)))
                    (filter (\<lambda>(d, r). to_numeric lib r \<noteq> None) s')
                = map (\<lambda>(d, r). (d, the (to_numeric lib r)))
                    (filter (\<lambda>(d, r). to_numeric lib r \<noteq> None) s)"
        using ms sort_values_sorted [OF Inr] sort_values_sorted [OF s'] ties
        by (rule numeric_rows_unique)
      have "prepared_series lib df
            = Inr (fitting_set (dropna (map (\<lambda>((d, r), t). (d, r, t, to_numeric lib r))
                                            (zip s (map h (map fst s))))))"
        using Inr ds dsh by (simp add: prepared_series_def prepare_def)
      moreover have "prepared_series lib df'
            = Inr (fitting_set (dropna (map (\<lambda>((d, r), t). (d, r, t, to_numeric lib r))
                                            (zip s' (map h (map fst s'))))))"
        using s' ds dsh col by (simp add: prepared_series_def prepare_def)
      ultimately show ?thesis
        by (simp only: fitting_set_numeric_rows same)
    qed
  qed
qed

text \<open>The run depends on the rows only through the prepared series.\<close>

lemma main_prepared_series:
  "main lib csv =
     (case read_csv lib csv of
        Inl e \<Rightarrow>
          \<lparr>stdout = [], stderr = ''csv-read-failed: '' @ e @ [CHR 0x0A],
           ending = Exit 2, calls = [Read_csv csv]\<rparr>
      | Inr df \<Rightarrow>
          if ''date'' \<notin> set (columns df) \<or> ''rating'' \<notin> set (columns df) then
            \<lparr>stdout = [], stderr = ''csv-missing-columns'' @ [CHR 0x0A],
             ending = Exit 3, calls = [Read_csv csv]\<rparr>
          else if length (rows df) = 0 then
            \<lparr>stdout = ''{\"yhat\": null}'' @ [CHR 0x0A], stderr = [],
             ending = Exit 0, calls = [Read_csv csv]\<rparr>
          else
            (case prepared_series lib df of
               Inl e \<Rightarrow>
                 \<lparr>stdout = [], stderr = [], ending = Uncaught e, calls = [Read_csv csv]\<rparr>
             | Inr series \<Rightarrow>
                 (case import_prophet lib of
                    Some e \<Rightarrow>
                      \<lparr>stdout = [], stderr = ''prophet-import-failed: '' @ e @ [CHR 0x0A],
                       ending = Exit 4, calls = [Read_csv csv, Import_prophet]\<rparr>
                  | None \<Rightarrow>
                      (case prophet_yhat lib series of
                         Inl e \<Rightarrow>
                           \<lparr>stdout = [], stderr = ''prophet-fit-failed: '' @ e @ [CHR 0x0A],
                            ending = Exit 5,
                            calls = [Read_csv csv, Import_prophet, Prophet_fit series]\<rparr>
                       | Inr yhat \<Rightarrow>
                           \<lparr>stdout = ''{\"yhat\": '' @ dumps_float lib yhat @ ''}'' @ [CHR 0x0A],
                            stderr = [], ending = Exit 0,
                            calls = [Read_csv csv, Import_prophet, Prophet_fit series]\<rparr>))))"
  by (simp add: main_def prepared_series_def split: sum.splits)

lemma row_key_read_csv: "row_key (lib\<lparr>read_csv := f\<rparr>) col = row_key lib col"
  by (simp add: row_key_def fun_eq_iff)

lemma sort_values_read_csv:
  "sort_values (lib\<lparr>read_csv := f\<rparr>) rs = sort_values lib rs"
  by (simp add: sort_values_def row_key_read_csv)

lemma to_datetime_column_read_csv:
  "to_datetime_column (lib\<lparr>read_csv := f\<rparr>) cs = to_datetime_column lib cs"
  by (simp add: to_datetime_column_def)

lemma prepare_read_csv: "prepare (lib\<lparr>read_csv := f\<rparr>) df = prepare lib df"
  by (simp add: prepare_def sort_values_read_csv to_datetime_column_read_csv
      cong: sum.case_cong)

lemma prepared_series_read_csv:
  "prepared_series (lib\<lparr>read_csv := f\<rparr>) df = prepared_series lib df"
  by (simp add: prepared_series_def prepare_read_csv)

lemma row_key_import_prophet:
  "row_key (lib\<lparr>import_prophet := x\<rparr>) col = row_key lib col"
  by (simp add: row_key_def fun_eq_iff)

lemma sort_values_import_prophet:
  "sort_values (lib\<lparr>import_prophet := x\<rparr>) rs = sort_values lib rs"
  by (simp add: sort_values_def row_key_import_prophet)

lemma to_datetime_column_import_prophet:
  "to_datetime_column (lib\<lparr>import_prophet := x\<rparr>) cs = to_datetime_column lib cs"
  by (simp add: to_datetime_column_def)

lemma prepare_import_prophet: "prepare (lib\<lparr>import_prophet := x\<rparr>) df = prepare lib df"
  by (simp add: prepare_def sort_values_import_prophet to_datetime_column_import_prophet
      cong: sum.case_cong)

lemma sorted_dropna:
  "sorted (map (\<lambda>(d, r, t, v). sort_rank d) xs)
   \<Longrightarrow> sorted (map (\<lambda>(d, r, t, v). sort_rank d) (dropna xs))"
  by (induction xs rule: dropna.induct) (auto simp: dropna_filter)

text \<open>What the sort of line 28 does give: the prepared rows in the order of the loaded dates.\<close>

lemma prepared_sorted_by_loaded_date:
  assumes "prepare lib df = Inr fr"
  shows "sorted (map (\<lambda>(d, r, t, v). sort_rank d) fr)"
proof -
  from prepare_rows [OF assms] obtain s ds where
    s: "sort_values lib (select_columns df) = Inr s" and len: "length ds = length s" and
    fr: "fr = dropna (map (\<lambda>((d, r), t). (d, r, t, to_numeric lib r)) (zip s ds))"
    by blast
  have "sorted (map (\<lambda>r. sort_rank (fst r)) s)"
    using s by (rule sort_values_sorted)
  moreover have "map (\<lambda>(d, r, t, v). sort_rank d) (map (\<lambda>((d, r), t). (d, r, t, to_numeric lib r)) (zip s ds))
      = map (\<lambda>r. sort_rank (fst r)) s"
    using len by (induction s ds rule: list_induct2') auto
  ultimately show ?thesis unfolding fr by (intro sorted_dropna) simp
qed

lemma prepare_ratings_csv:
  "prepare sample_library ratings_csv =
     Inr [(Str ''1/1/2024'', Number 5, Some (2024, 1, 1), 5),
          (Str ''1/2/2024'', Number 3, Some (2024, 1, 2), 3),
          (Str ''1/3/2024'', Number 4, Some (2024, 1, 3), 4)]"
  by (simp add: run_defs sample_defs)

lemma prepare_words_csv: "prepare sample_library words_csv = Inr []"
  by (simp add: run_defs sample_defs)

lemma sort_values_some_words:
  "sort_values sample_library (select_columns some_words_csv)
     = Inr [(Str ''1/1/2024'', Str ''4''), (Str ''1/2/2024'', Str ''good''), (Str ''1/3/2024'', Str ''5'')]"
  by (simp add: sort_values_def row_key_def enumerate_eq_zip select_columns_def
      some_words_csv_def table_row_def sample_library_def)

lemma to_datetime_some_words:
  "to_datetime_column sample_library [Str ''1/1/2024'', Str ''1/2/2024'', Str ''1/3/2024'']
     = Inr [Some (2024, 1, 1), Some (2024, 1, 2), Some (2024, 1, 3)]"
  by (simp add: to_datetime_column_def sample_defs)

section \<open>Loading and validating (lines 12 to 24)\<close>

text \<open>
  C7.  When \<^verbatim>\<open>pd.read_csv\<close> raises on the path (no such file, an unreadable one, text
  it cannot parse), the script writes one message to stderr, \<^verbatim>\<open>csv-read-failed: \<close>
  followed by the exception's text, writes nothing to stdout and exits with status 2.
\<close>

theorem csv_read_failure:
  "read_csv lib p = Inl e \<Longrightarrow>
   main lib p = \<lparr>stdout = [], stderr = ''csv-read-failed: '' @ e @ [CHR 0x0A],
                 ending = Exit 2, calls = [Read_csv p]\<rparr>"
  by (simp add: main_def)

text \<open>
  On the sample file system, \<^verbatim>\<open>nothing.csv\<close> does not exist.
\<close>

theorem csv_read_failure_witness:
  "main sample_library ''nothing.csv'' =
     \<lparr>stdout = [],
      stderr = ''csv-read-failed: [Errno 2] No such file or directory: nothing.csv'' @ [CHR 0x0A],
      ending = Exit 2, calls = [Read_csv ''nothing.csv'']\<rparr>"
proof -
  have h: "read_csv sample_library ''nothing.csv''
             = Inl ''[Errno 2] No such file or directory: nothing.csv''"
    by (simp add: sample_defs)
  show ?thesis using csv_read_failure [OF h] by simp
qed

text \<open>
  C6.  For a table that loaded, when the \<^verbatim>\<open>date\<close> column or the \<^verbatim>\<open>rating\<close> column
  (or both) is absent the script writes the one stderr line \<^verbatim>\<open>csv-missing-columns\<close> and
  exits with status 3; when both columns are present, it neither exits with status 3 nor
  writes that line.
\<close>

theorem missing_columns:
  assumes "read_csv lib p = Inr df"
  shows "(''date'' \<notin> set (columns df) \<or> ''rating'' \<notin> set (columns df) \<longrightarrow>
            main lib p = \<lparr>stdout = [], stderr = ''csv-missing-columns'' @ [CHR 0x0A],
                          ending = Exit 3, calls = [Read_csv p]\<rparr>)
       \<and> (''date'' \<in> set (columns df) \<and> ''rating'' \<in> set (columns df) \<longrightarrow>
            ending (main lib p) \<noteq> Exit 3
            \<and> stderr (main lib p) \<noteq> ''csv-missing-columns'' @ [CHR 0x0A])"
  using assms by (auto simp: main_def split: sum.splits option.splits)

text \<open>
  \<^verbatim>\<open>no_rating.csv\<close> has a \<^verbatim>\<open>score\<close> column in place of \<^verbatim>\<open>rating\<close>;
  \<^verbatim>\<open>ratings.csv\<close> has both columns.
\<close>

theorem missing_columns_witness:
  "main sample_library ''no_rating.csv''
     = \<lparr>stdout = [], stderr = ''csv-missing-columns'' @ [CHR 0x0A],
        ending = Exit 3, calls = [Read_csv ''no_rating.csv'']\<rparr>
   \<and> ending (main sample_library ''ratings.csv'') \<noteq> Exit 3
   \<and> stderr (main sample_library ''ratings.csv'') \<noteq> ''csv-missing-columns'' @ [CHR 0x0A]"
proof -
  have a: "read_csv sample_library ''no_rating.csv'' = Inr no_rating_csv"
    by (simp add: sample_library_def sample_read_csv_def sample_files_def)
  have b: "read_csv sample_library ''ratings.csv'' = Inr ratings_csv"
    by (simp add: sample_library_def sample_read_csv_def sample_files_def)
  show ?thesis
    using missing_columns [OF a] missing_columns [OF b]
    by (simp add: no_rating_csv_def ratings_csv_def)
qed

text \<open>
  C5.  For a table with both columns and no row, the script prints exactly
  \<^verbatim>\<open>{"yhat": null}\<close> as one line on stdout and ends with status 0; the only call it
  made is the one that read the file: Prophet is neither imported nor run.
\<close>

theorem empty_table_null:
  assumes "read_csv lib p = Inr df"
    and "''date'' \<in> set (columns df)" and "''rating'' \<in> set (columns df)"
    and "rows df = []"
  shows "main lib p = \<lparr>stdout = ''{\"yhat\": null}'' @ [CHR 0x0A], stderr = [],
                       ending = Exit 0, calls = [Read_csv p]\<rparr>
       \<and> Import_prophet \<notin> set (calls (main lib p))
       \<and> (\<forall>series. Prophet_fit series \<notin> set (calls (main lib p)))"
  using assms by (simp add: main_def)

text \<open>
  \<^verbatim>\<open>header_only.csv\<close> is a header line and nothing else.
\<close>

theorem empty_table_null_witness:
  "main sample_library ''header_only.csv''
     = \<lparr>stdout = ''{\"yhat\": null}'' @ [CHR 0x0A], stderr = [],
        ending = Exit 0, calls = [Read_csv ''header_only.csv'']\<rparr>
   \<and> Import_prophet \<notin> set (calls (main sample_library ''header_only.csv''))
   \<and> (\<forall>series. Prophet_fit series \<notin> set (calls (main sample_library ''header_only.csv'')))"
proof -
  have a: "read_csv sample_library ''header_only.csv'' = Inr header_only_csv"
    by (simp add: sample_library_def sample_read_csv_def sample_files_def)
  show ?thesis
    by (rule empty_table_null [OF a]) (simp_all add: header_only_csv_def)
qed

text \<open>
  C10.  For a table with both columns and no row, the run succeeds with
  \<^verbatim>\<open>{"yhat": null}\<close> and status 0 also where importing Prophet would raise: the import
  comes after the return for the empty table, and is not among the calls made.
\<close>

theorem empty_table_needs_no_prophet:
  assumes "read_csv lib p = Inr df"
    and "''date'' \<in> set (columns df)" and "''rating'' \<in> set (columns df)"
    and "rows df = []"
  shows "main (lib\<lparr>import_prophet := Some e\<rparr>) p =
           \<lparr>stdout = ''{\"yhat\": null}'' @ [CHR 0x0A], stderr = [],
            ending = Exit 0, calls = [Read_csv p]\<rparr>"
  using assms by (simp add: main_def)

text \<open>
  The sample environment with Prophet not installed, on the header-only file.
\<close>

theorem empty_table_needs_no_prophet_witness:
  "main (sample_library\<lparr>import_prophet := Some ''No module named prophet''\<rparr>) ''header_only.csv''
     = \<lparr>stdout = ''{\"yhat\": null}'' @ [CHR 0x0A], stderr = [],
        ending = Exit 0, calls = [Read_csv ''header_only.csv'']\<rparr>"
proof -
  have a: "read_csv sample_library ''header_only.csv'' = Inr header_only_csv"
    by (simp add: sample_library_def sample_read_csv_def sample_files_def)
  show ?thesis
    by (rule empty_table_needs_no_prophet [OF a]) (simp_all add: header_only_csv_def)
qed

section \<open>Forecasting (lines 33 to 48)\<close>

text \<open>
  C8.  Once the rows of a table are prepared: if importing Prophet raises, the script
  writes \<^verbatim>\<open>prophet-import-failed: \<close> and the exception's text and exits with status 4;
  if configuring, fitting, predicting or reading the predicted value raises, the
  exception is caught, the script writes the one line \<^verbatim>\<open>prophet-fit-failed: \<close> with the
  exception's text and exits with status 5; otherwise it prints the predicted value and
  ends with status 0.  This holds for every prepared series, the non-empty ones among
  them.
\<close>

theorem forecaster_exit_codes:
  assumes "read_csv lib p = Inr df"
    and "''date'' \<in> set (columns df)" and "''rating'' \<in> set (columns df)"
    and "rows df \<noteq> []"
    and "prepare lib df = Inr fr"
  shows "(\<forall>e. import_prophet lib = Some e \<longrightarrow>
            main lib p = \<lparr>stdout = [], stderr = ''prophet-import-failed: '' @ e @ [CHR 0x0A],
                          ending = Exit 4, calls = [Read_csv p, Import_prophet]\<rparr>)
       \<and> (\<forall>e. import_prophet lib = None \<and> prophet_yhat lib (fitting_set fr) = Inl e \<longrightarrow>
            main lib p = \<lparr>stdout = [], stderr = ''prophet-fit-failed: '' @ e @ [CHR 0x0A],
                          ending = Exit 5,
                          calls = [Read_csv p, Import_prophet, Prophet_fit (fitting_set fr)]\<rparr>)
       \<and> (\<forall>v. import_prophet lib = None \<and> prophet_yhat lib (fitting_set fr) = Inr v \<longrightarrow>
            main lib p = \<lparr>stdout = ''{\"yhat\": '' @ dumps_float lib v @ ''}'' @ [CHR 0x0A],
                          stderr = [], ending = Exit 0,
                          calls = [Read_csv p, Import_prophet, Prophet_fit (fitting_set fr)]\<rparr>)"
  using assms by (simp add: main_def)

text \<open>
  The three cases on the sample environment: Prophet not installed, a fitting set that
  Prophet refuses, and a run that succeeds.
\<close>

theorem forecaster_exit_codes_witness:
  "main (sample_library\<lparr>import_prophet := Some ''No module named prophet''\<rparr>) ''ratings.csv''
     = \<lparr>stdout = [], stderr = ''prophet-import-failed: No module named prophet'' @ [CHR 0x0A],
        ending = Exit 4, calls = [Read_csv ''ratings.csv'', Import_prophet]\<rparr>
   \<and> main sample_library ''words.csv''
     = \<lparr>stdout = [],
        stderr = ''prophet-fit-failed: Dataframe has less than 2 non-NaN rows.'' @ [CHR 0x0A],
        ending = Exit 5, calls = [Read_csv ''words.csv'', Import_prophet, Prophet_fit []]\<rparr>
   \<and> main sample_library ''ratings.csv''
     = \<lparr>stdout = ''{\"yhat\": 4.0}'' @ [CHR 0x0A], stderr = [], ending = Exit 0,
        calls = [Read_csv ''ratings.csv'', Import_prophet,
                 Prophet_fit [(Some (2024, 1, 1), 5), (Some (2024, 1, 2), 3), (Some (2024, 1, 3), 4)]]\<rparr>"
proof -
  let ?off = "sample_library\<lparr>import_prophet := Some ''No module named prophet''\<rparr>"
  have r: "read_csv sample_library ''ratings.csv'' = Inr ratings_csv"
    and w: "read_csv sample_library ''words.csv'' = Inr words_csv"
    and r': "read_csv ?off ''ratings.csv'' = Inr ratings_csv"
    by (simp_all add: sample_library_def sample_read_csv_def sample_files_def)
  have cols: "''date'' \<in> set (columns ratings_csv)" "''rating'' \<in> set (columns ratings_csv)"
    "rows ratings_csv \<noteq> []" "''date'' \<in> set (columns words_csv)"
    "''rating'' \<in> set (columns words_csv)" "rows words_csv \<noteq> []"
    by (simp_all add: ratings_csv_def words_csv_def)
  have p': "prepare ?off ratings_csv = prepare sample_library ratings_csv"
    by (rule prepare_import_prophet)
  note off = forecaster_exit_codes [OF r' cols(1-3) p' [unfolded prepare_ratings_csv]]
  note fail = forecaster_exit_codes [OF w cols(4-6) prepare_words_csv]
  note ok = forecaster_exit_codes [OF r cols(1-3) prepare_ratings_csv]
  have "main ?off ''ratings.csv''
     = \<lparr>stdout = [], stderr = ''prophet-import-failed: No module named prophet'' @ [CHR 0x0A],
        ending = Exit 4, calls = [Read_csv ''ratings.csv'', Import_prophet]\<rparr>"
    using off by (simp add: sample_library_def)
  moreover have "main sample_library ''words.csv''
     = \<lparr>stdout = [],
        stderr = ''prophet-fit-failed: Dataframe has less than 2 non-NaN rows.'' @ [CHR 0x0A],
        ending = Exit 5, calls = [Read_csv ''words.csv'', Import_prophet, Prophet_fit []]\<rparr>"
    using fail by (simp add: sample_library_def sample_prophet_yhat_def fitting_set_def)
  moreover have "main sample_library ''ratings.csv''
     = \<lparr>stdout = ''{\"yhat\": 4.0}'' @ [CHR 0x0A], stderr = [], ending = Exit 0,
        calls = [Read_csv ''ratings.csv'', Import_prophet,
                 Prophet_fit [(Some (2024, 1, 1), 5), (Some (2024, 1, 2), 3), (Some (2024, 1, 3), 4)]]\<rparr>"
    using ok by (simp add: sample_library_def sample_prophet_yhat_def sample_dumps_float_def
        fitting_set_def show_nat.simps [of 4])
  ultimately show ?thesis by simp
qed

section \<open>Ratings that are not numbers\<close>

text \<open>
  C1, as amended.  For a loaded table with both columns and at least one row in which no
  rating converts to a number, the run is not the one of the empty table (the null
  result after the single read): the emptiness test on line 22 comes before the coercion
  and is not repeated.  If the date column sorts and converts, nothing is left of the
  rows; then, where importing Prophet raises, the run ends with status 4 and the
  forecaster is not run, and where Prophet can be imported the forecaster is run on the
  empty fitting set; if it raises there, the run ends with \<^verbatim>\<open>prophet-fit-failed\<close> and
  status 5.
\<close>

theorem all_invalid_ratings_not_short_circuited:
  assumes "read_csv lib p = Inr df"
    and "''date'' \<in> set (columns df)" and "''rating'' \<in> set (columns df)"
    and "rows df \<noteq> []"
    and "\<forall>r \<in> set (rows df). to_numeric lib (r ''rating'') = None"
  shows "main lib p \<noteq> \<lparr>stdout = ''{\"yhat\": null}'' @ [CHR 0x0A], stderr = [],
                        ending = Exit 0, calls = [Read_csv p]\<rparr>
       \<and> (\<forall>fr. prepare lib df = Inr fr \<longrightarrow>
             fr = []
             \<and> (\<forall>e. import_prophet lib = Some e \<longrightarrow>
                   calls (main lib p) = [Read_csv p, Import_prophet]
                   \<and> ending (main lib p) = Exit 4)
             \<and> (import_prophet lib = None \<longrightarrow>
                  calls (main lib p) = [Read_csv p, Import_prophet, Prophet_fit []]
                  \<and> (\<forall>e. prophet_yhat lib [] = Inl e \<longrightarrow>
                        stdout (main lib p) = []
                        \<and> stderr (main lib p) = ''prophet-fit-failed: '' @ e @ [CHR 0x0A]
                        \<and> ending (main lib p) = Exit 5)))"
proof -
  have empty: "fr = []" if "prepare lib df = Inr fr" for fr
    using that assms(5) by (rule prepare_all_invalid)
  have "main lib p \<noteq> \<lparr>stdout = ''{\"yhat\": null}'' @ [CHR 0x0A], stderr = [],
                        ending = Exit 0, calls = [Read_csv p]\<rparr>"
    using assms(1-4) by (auto simp: main_def split: sum.splits option.splits)
  moreover have "calls (main lib p) = [Read_csv p, Import_prophet]
      \<and> ending (main lib p) = Exit 4"
    if "prepare lib df = Inr fr" "import_prophet lib = Some e" for fr e
    using assms(1-4) that by (simp add: main_def)
  moreover have "calls (main lib p) = [Read_csv p, Import_prophet, Prophet_fit []]"
    if "prepare lib df = Inr fr" "import_prophet lib = None" for fr
    using assms(1-4) that empty [OF that(1)]
    by (auto simp: main_def fitting_set_def split: sum.splits)
  moreover have "stdout (main lib p) = []
      \<and> stderr (main lib p) = ''prophet-fit-failed: '' @ e @ [CHR 0x0A]
      \<and> ending (main lib p) = Exit 5"
    if "prepare lib df = Inr fr" "import_prophet lib = None" "prophet_yhat lib [] = Inl e" for fr e
    using assms(1-4) that empty [OF that(1)]
    by (auto simp: main_def fitting_set_def split: sum.splits)
  ultimately show ?thesis using empty by blast
qed

text \<open>
  \<^verbatim>\<open>words.csv\<close> has two rows whose ratings are words.
\<close>

theorem all_invalid_ratings_not_short_circuited_witness:
  "main sample_library ''words.csv''
      \<noteq> \<lparr>stdout = ''{\"yhat\": null}'' @ [CHR 0x0A], stderr = [],
         ending = Exit 0, calls = [Read_csv ''words.csv'']\<rparr>
   \<and> calls (main sample_library ''words.csv'')
        = [Read_csv ''words.csv'', Import_prophet, Prophet_fit []]
   \<and> stderr (main sample_library ''words.csv'')
        = ''prophet-fit-failed: Dataframe has less than 2 non-NaN rows.'' @ [CHR 0x0A]
   \<and> ending (main sample_library ''words.csv'') = Exit 5"
proof -
  have w: "read_csv sample_library ''words.csv'' = Inr words_csv"
    by (simp add: sample_library_def sample_read_csv_def sample_files_def)
  have cols: "''date'' \<in> set (columns words_csv)" "''rating'' \<in> set (columns words_csv)"
    "rows words_csv \<noteq> []"
    by (simp_all add: words_csv_def)
  have bad: "\<forall>r \<in> set (rows words_csv). to_numeric sample_library (r ''rating'') = None"
    by (simp add: sample_defs)
  have imp: "import_prophet sample_library = None"
    and fit: "prophet_yhat sample_library [] = Inl ''Dataframe has less than 2 non-NaN rows.''"
    by (simp_all add: sample_library_def sample_prophet_yhat_def)
  show ?thesis
    using all_invalid_ratings_not_short_circuited [OF w cols bad] prepare_words_csv imp fit
    by simp
qed

text \<open>
  C1 as stated promises that every such table is passed on to the forecaster.  Two
  tables whose ratings are all words are not: in \<^verbatim>\<open>soon_good.csv\<close> the date is no date
  and line 29 raises before Prophet is imported; on \<^verbatim>\<open>words.csv\<close> with Prophet not
  installed the run ends with status 4 after the import.
\<close>

theorem all_invalid_ratings_not_always_fitted:
  "read_csv sample_library ''soon_good.csv'' = Inr soon_good_csv
   \<and> ''date'' \<in> set (columns soon_good_csv) \<and> ''rating'' \<in> set (columns soon_good_csv)
   \<and> rows soon_good_csv \<noteq> []
   \<and> list_all (\<lambda>r. to_numeric sample_library (r ''rating'') = None) (rows soon_good_csv)
   \<and> main sample_library ''soon_good.csv''
       = \<lparr>stdout = [], stderr = [],
          ending = Uncaught ''Unknown datetime string format, unable to parse: soon'',
          calls = [Read_csv ''soon_good.csv'']\<rparr>
   \<and> list_all (\<lambda>r. to_numeric sample_library (r ''rating'') = None) (rows words_csv)
   \<and> main (sample_library\<lparr>import_prophet := Some ''No module named prophet''\<rparr>) ''words.csv''
       = \<lparr>stdout = [], stderr = ''prophet-import-failed: No module named prophet'' @ [CHR 0x0A],
          ending = Exit 4, calls = [Read_csv ''words.csv'', Import_prophet]\<rparr>"
  by (simp add: run_defs sample_defs)

text \<open>
  C9, as amended.  For a loaded table with both columns and at least one row whose date
  column can be sorted and converted, the coercion of the ratings raises nothing and the
  run has no uncaught exception: the prepared rows are exactly the sorted rows whose
  rating converts to a number, in the order the sort gave them, each with the number it
  converts to; the rows whose rating does not convert are gone, and where Prophet can be
  imported it is the remaining rows that are handed to the forecaster.
\<close>

theorem invalid_ratings_dropped:
  assumes "read_csv lib p = Inr df"
    and "''date'' \<in> set (columns df)" and "''rating'' \<in> set (columns df)"
    and "rows df \<noteq> []"
    and "sort_values lib (select_columns df) = Inr s"
    and "to_datetime_column lib (map fst s) = Inr ds"
  shows "\<exists>fr. prepare lib df = Inr fr
           \<and> length ds = length s
           \<and> fr = map (\<lambda>((d, r), t). (d, r, t, the (to_numeric lib r)))
                    (filter (\<lambda>((d, r), t). to_numeric lib r \<noteq> None) (zip s ds))
           \<and> (\<forall>e. ending (main lib p) \<noteq> Uncaught e)
           \<and> (import_prophet lib = None \<longrightarrow>
                 calls (main lib p) = [Read_csv p, Import_prophet, Prophet_fit (fitting_set fr)])"
proof -
  let ?fr = "dropna (map (\<lambda>((d, r), t). (d, r, t, to_numeric lib r)) (zip s ds))"
  have p: "prepare lib df = Inr ?fr"
    using assms(5,6) by (simp add: prepare_def)
  have len: "length ds = length s"
    using assms(6) collect_length by (fastforce simp: to_datetime_column_def)
  have fr: "?fr = map (\<lambda>((d, r), t). (d, r, t, the (to_numeric lib r)))
                    (filter (\<lambda>((d, r), t). to_numeric lib r \<noteq> None) (zip s ds))"
    by (simp add: dropna_filter filter_map comp_def case_prod_unfold)
  have unc: "\<forall>e. ending (main lib p) \<noteq> Uncaught e"
    using assms(1-4) p by (auto simp: main_def split: sum.splits option.splits)
  have fit: "import_prophet lib = None \<longrightarrow>
      calls (main lib p) = [Read_csv p, Import_prophet, Prophet_fit (fitting_set ?fr)]"
    using assms(1-4) p by (auto simp: main_def split: sum.splits)
  show ?thesis
  proof (intro exI conjI)
    show "prepare lib df = Inr ?fr" by (rule p)
    show "length ds = length s" by (rule len)
    show "?fr = map (\<lambda>((d, r), t). (d, r, t, the (to_numeric lib r)))
                    (filter (\<lambda>((d, r), t). to_numeric lib r \<noteq> None) (zip s ds))"
      by (rule fr)
    show "\<forall>e. ending (main lib p) \<noteq> Uncaught e" by (rule unc)
    show "import_prophet lib = None \<longrightarrow>
      calls (main lib p) = [Read_csv p, Import_prophet, Prophet_fit (fitting_set ?fr)]"
      by (rule fit)
  qed
qed

text \<open>
  \<^verbatim>\<open>some_words.csv\<close> has the ratings \<^verbatim>\<open>4\<close>, \<^verbatim>\<open>good\<close> and \<^verbatim>\<open>5\<close>:
  the middle row is dropped.
\<close>

theorem invalid_ratings_dropped_witness:
  "prepare sample_library some_words_csv
     = Inr [(Str ''1/1/2024'', Str ''4'', Some (2024, 1, 1), 4),
            (Str ''1/3/2024'', Str ''5'', Some (2024, 1, 3), 5)]
   \<and> (\<forall>e. ending (main sample_library ''some_words.csv'') \<noteq> Uncaught e)
   \<and> calls (main sample_library ''some_words.csv'')
        = [Read_csv ''some_words.csv'', Import_prophet,
           Prophet_fit [(Some (2024, 1, 1), 4), (Some (2024, 1, 3), 5)]]"
proof -
  have f: "read_csv sample_library ''some_words.csv'' = Inr some_words_csv"
    by (simp add: sample_library_def sample_read_csv_def sample_files_def)
  have cols: "''date'' \<in> set (columns some_words_csv)" "''rating'' \<in> set (columns some_words_csv)"
    "rows some_words_csv \<noteq> []"
    by (simp_all add: some_words_csv_def)
  have d: "to_datetime_column sample_library
             (map fst [(Str ''1/1/2024'', Str ''4''), (Str ''1/2/2024'', Str ''good''),
                       (Str ''1/3/2024'', Str ''5'')])
           = Inr [Some (2024, 1, 1), Some (2024, 1, 2), Some (2024, 1, 3)]"
    using to_datetime_some_words by simp
  have n: "to_numeric sample_library (Str ''4'') = Some 4"
    "to_numeric sample_library (Str ''good'') = None"
    "to_numeric sample_library (Str ''5'') = Some 5"
    "import_prophet sample_library = None"
    by (simp_all add: sample_library_def sample_to_numeric_def read_nat_def digit_of_def)
  show ?thesis
    using invalid_ratings_dropped [OF f cols sort_values_some_words d]
    by (auto simp: n fitting_set_def)
qed

text \<open>
  C9 as stated holds of every table with the two columns and a row.  In
  \<^verbatim>\<open>good_then_soon.csv\<close> the first rating is a word and the second date is no date:
  line 29 raises, the run ends there, and no row is dropped or handed on.  On
  \<^verbatim>\<open>some_words.csv\<close> with Prophet not installed the run ends with status 4 and no row
  reaches the forecaster.
\<close>

theorem bad_date_ends_run_before_fit:
  "read_csv sample_library ''good_then_soon.csv'' = Inr good_then_soon_csv
   \<and> ''date'' \<in> set (columns good_then_soon_csv)
   \<and> ''rating'' \<in> set (columns good_then_soon_csv)
   \<and> rows good_then_soon_csv \<noteq> []
   \<and> main sample_library ''good_then_soon.csv''
       = \<lparr>stdout = [], stderr = [],
          ending = Uncaught ''Unknown datetime string format, unable to parse: soon'',
          calls = [Read_csv ''good_then_soon.csv'']\<rparr>
   \<and> main (sample_library\<lparr>import_prophet := Some ''No module named prophet''\<rparr>) ''some_words.csv''
       = \<lparr>stdout = [], stderr = ''prophet-import-failed: No module named prophet'' @ [CHR 0x0A],
          ending = Exit 4, calls = [Read_csv ''some_words.csv'', Import_prophet]\<rparr>"
  by (simp add: run_defs sample_defs)

section \<open>The order of the rows\<close>

text \<open>
  C4, as amended.  For a table in which any two rows with the same date whose ratings
  both convert to a number convert to the same number (in particular when all dates
  differ), and every permutation of its rows, the permuted table gives the identical
  prepared series, and the run on the permuted table is identical to the run on the
  original.  This holds whatever order the sort gives to rows with equal dates.
\<close>

theorem shuffled_rows_same_series:
  assumes "mset (rows df') = mset (rows df)" and "columns df' = columns df"
    and "\<forall>a \<in> set (rows df). \<forall>b \<in> set (rows df). a ''date'' = b ''date'' \<longrightarrow>
           (\<forall>u v. to_numeric lib (a ''rating'') = Some u \<and> to_numeric lib (b ''rating'') = Some v
                  \<longrightarrow> u = v)"
  shows "prepared_series lib df' = prepared_series lib df
       \<and> main (lib\<lparr>read_csv := \<lambda>path. Inr df'\<rparr>) p = main (lib\<lparr>read_csv := \<lambda>path. Inr df\<rparr>) p"
proof -
  have eq: "prepared_series lib df' = prepared_series lib df"
    using assms(1,3) by (rule prepared_series_perm)
  have "length (rows df') = length (rows df)"
    using assms(1) by (rule mset_eq_length)
  with eq assms(2) show ?thesis
    by (simp add: main_prepared_series prepared_series_read_csv
        cong: sum.case_cong option.case_cong)
qed

text \<open>
  \<^verbatim>\<open>words_same_day.csv\<close> has two rows on the same day whose ratings are two different
  words, and two more rows; the other table holds the same rows in another order.
\<close>

theorem shuffled_rows_same_series_witness:
  "prepared_series sample_library words_same_day_shuffled_csv
     = prepared_series sample_library words_same_day_csv
   \<and> main (sample_library\<lparr>read_csv := \<lambda>path. Inr words_same_day_shuffled_csv\<rparr>) ''w.csv''
       = main (sample_library\<lparr>read_csv := \<lambda>path. Inr words_same_day_csv\<rparr>) ''w.csv''"
proof -
  have m: "mset (rows words_same_day_shuffled_csv) = mset (rows words_same_day_csv)"
    by (simp add: words_same_day_csv_def words_same_day_shuffled_csv_def add_mset_commute)
  have c: "columns words_same_day_shuffled_csv = columns words_same_day_csv"
    by (simp add: words_same_day_csv_def words_same_day_shuffled_csv_def)
  have t: "\<forall>a \<in> set (rows words_same_day_csv). \<forall>b \<in> set (rows words_same_day_csv).
             a ''date'' = b ''date'' \<longrightarrow>
             (\<forall>u v. to_numeric sample_library (a ''rating'') = Some u
                      \<and> to_numeric sample_library (b ''rating'') = Some v \<longrightarrow> u = v)"
    by (simp add: words_same_day_csv_def table_row_def sample_library_def
        sample_to_numeric_def read_nat_def digit_of_def)
  show ?thesis by (rule shuffled_rows_same_series [OF m c t])
qed

text \<open>
  C4 as stated fails where two rows share a date and both ratings are numbers: the sort
  sees the date column only, which is the same in the two orders of \<^verbatim>\<open>same_day.csv\<close>,
  so the rows land in the same places and the two prepared series differ.
\<close>

theorem shuffled_same_day_rows_differ:
  "mset (rows same_day_shuffled_csv) = mset (rows same_day_csv)
   \<and> columns same_day_shuffled_csv = columns same_day_csv
   \<and> prepared_series sample_library same_day_shuffled_csv
       \<noteq> prepared_series sample_library same_day_csv"
proof -
  have "mset (rows same_day_shuffled_csv) = mset (rows same_day_csv)"
    by (simp add: same_day_shuffled_csv_def same_day_csv_def)
  moreover have "columns same_day_shuffled_csv = columns same_day_csv"
    by (simp add: same_day_shuffled_csv_def same_day_csv_def)
  moreover have "prepared_series sample_library same_day_shuffled_csv
       \<noteq> prepared_series sample_library same_day_csv"
    by (simp add: prepared_series_def run_defs sample_defs)
  ultimately show ?thesis by simp
qed

text \<open>
  The two orders of that table differ for every order the library may give to rows with
  equal dates, not only for the one of the sample environment.
\<close>

lemma same_day_rows_differ_whatever_the_tie_order:
  "prepared_series (sample_library\<lparr>tie_order := f\<rparr>) same_day_shuffled_csv
     \<noteq> prepared_series (sample_library\<lparr>tie_order := f\<rparr>) same_day_csv"
  by (simp add: prepared_series_def run_defs sample_defs)

text \<open>
  C3.  The claim is that the series handed to the forecaster is in ascending order of
  the calendar date, with the rows without a numeric rating removed.  Line 28 sorts the
  date column as it was loaded, before line 29 converts it: on \<^verbatim>\<open>us_dates.csv\<close>,
  with the dates \<^verbatim>\<open>9/1/2024\<close> and \<^verbatim>\<open>10/1/2024\<close>, the text \<^verbatim>\<open>10/1/2024\<close> sorts first
  and the forecaster is given October before September.
\<close>

theorem us_dates_not_chronological:
  "calls (main sample_library ''us_dates.csv'')
     = [Read_csv ''us_dates.csv'', Import_prophet,
        Prophet_fit [(Some (2024, 10, 1), 3), (Some (2024, 9, 1), 4)]]
   \<and> \<not> sorted (map fst [(Some (2024 :: nat, 10 :: nat, 1 :: nat), 3 :: int), (Some (2024, 9, 1), 4)])"
  by (simp add: run_defs sample_defs)

text \<open>
  The series of that run, as the call to the forecaster records it.
\<close>

theorem us_dates_not_chronological_witness:
  "Prophet_fit [(Some (2024, 10, 1), 3), (Some (2024, 9, 1), 4)]
     \<in> set (calls (main sample_library ''us_dates.csv''))"
  using us_dates_not_chronological by simp

text \<open>
  C2.  The claim is that preparing the rows has no failure path, whatever the date and
  rating columns hold.  Line 29 converts the dates with \<^verbatim>\<open>errors='raise'\<close>, the
  default, outside every \<^verbatim>\<open>try\<close>: on \<^verbatim>\<open>bad_date.csv\<close>, whose second date is the
  word \<^verbatim>\<open>soon\<close>, the exception leaves \<^verbatim>\<open>main\<close> uncaught, before Prophet is
  imported and with none of the script's messages written.
\<close>

theorem unparseable_date_escapes:
  "main sample_library ''bad_date.csv''
     = \<lparr>stdout = [], stderr = [],
        ending = Uncaught ''Unknown datetime string format, unable to parse: soon'',
        calls = [Read_csv ''bad_date.csv'']\<rparr>"
  by (simp add: run_defs sample_defs)

text \<open>
  That run ends with none of the script's exit statuses.
\<close>

theorem unparseable_date_escapes_witness:
  "\<forall>n. ending (main sample_library ''bad_date.csv'') \<noteq> Exit n"
  using unparseable_date_escapes by simp

end
